theory Spec2Isabelle
  imports Complex_Main "HOL-Library.Log_Nat"
begin

text \<open>
  The video processing server: the conversion of timestamps, the handler of
  \<open>POST /cut-video\<close> with its loop over the cuts, and the health check. The handler
  runs after the upload middleware has stored the file; a promise that the handler awaits
  is a call that returns or throws. What the server calls and does not define (the JSON
  parser, the engine, the file system, the generator of identifiers) is a parameter.
\<close>

section \<open>JavaScript numbers\<close>

text \<open>
  The values of JavaScript's Number type that the server computes with. A finite value is
  kept as an exact rational: rounding to binary64, overflow to an infinity and the sign of
  zero are not modelled. \<open>NaN\<close> and the two infinities are values of their own, with the
  arithmetic and the comparison that ECMAScript gives them.
\<close>

datatype jsnum = NaN | Fin rat | PosInf | NegInf

fun js_neg :: "jsnum \<Rightarrow> jsnum" where
  "js_neg NaN = NaN"
| "js_neg (Fin a) = Fin (- a)"
| "js_neg PosInf = NegInf"
| "js_neg NegInf = PosInf"

fun js_add :: "jsnum \<Rightarrow> jsnum \<Rightarrow> jsnum" where
  "js_add NaN _ = NaN"
| "js_add _ NaN = NaN"
| "js_add (Fin a) (Fin b) = Fin (a + b)"
| "js_add PosInf NegInf = NaN"
| "js_add NegInf PosInf = NaN"
| "js_add PosInf _ = PosInf"
| "js_add NegInf _ = NegInf"
| "js_add (Fin a) PosInf = PosInf"
| "js_add (Fin a) NegInf = NegInf"

definition js_sub :: "jsnum \<Rightarrow> jsnum \<Rightarrow> jsnum" where
  "js_sub a b = js_add a (js_neg b)"

definition inf_of_sign :: "bool \<Rightarrow> jsnum" where
  "inf_of_sign positive = (if positive then PosInf else NegInf)"

fun js_mul :: "jsnum \<Rightarrow> jsnum \<Rightarrow> jsnum" where
  "js_mul NaN _ = NaN"
| "js_mul _ NaN = NaN"
| "js_mul (Fin a) (Fin b) = Fin (a * b)"
| "js_mul (Fin a) PosInf = (if a = 0 then NaN else inf_of_sign (0 < a))"
| "js_mul (Fin a) NegInf = (if a = 0 then NaN else inf_of_sign (a < 0))"
| "js_mul PosInf (Fin b) = (if b = 0 then NaN else inf_of_sign (0 < b))"
| "js_mul NegInf (Fin b) = (if b = 0 then NaN else inf_of_sign (b < 0))"
| "js_mul PosInf PosInf = PosInf"
| "js_mul NegInf NegInf = PosInf"
| "js_mul PosInf NegInf = NegInf"
| "js_mul NegInf PosInf = NegInf"

text \<open>The operator \<open><=\<close>: false as soon as one operand is \<open>NaN\<close>.\<close>

fun js_le :: "jsnum \<Rightarrow> jsnum \<Rightarrow> bool" where
  "js_le NaN _ = False"
| "js_le _ NaN = False"
| "js_le (Fin a) (Fin b) = (a \<le> b)"
| "js_le NegInf _ = True"
| "js_le _ PosInf = True"
| "js_le PosInf _ = False"
| "js_le _ NegInf = False"

text \<open>ToBoolean on a number: \<open>NaN\<close> and zero are falsy.\<close>

fun truthy :: "jsnum \<Rightarrow> bool" where
  "truthy NaN = False"
| "truthy (Fin a) = (a \<noteq> 0)"
| "truthy _ = True"

section \<open>Strings to numbers\<close>

text \<open>
  \<open>String.prototype.split\<close> with a one-character separator: the pieces between the
  separators, so a string with \<open>k\<close> separators gives \<open>k + 1\<close> pieces and the empty
  string gives one empty piece.
\<close>

fun split :: "char \<Rightarrow> string \<Rightarrow> string list" where
  "split c [] = [[]]"
| "split c (x # xs) =
     (if x = c then [] # split c xs
      else (case split c xs of
              [] \<Rightarrow> [[x]]
            | p # ps \<Rightarrow> (x # p) # ps))"

fun index_of :: "char \<Rightarrow> string \<Rightarrow> nat option" where
  "index_of c [] = None"
| "index_of c (x # xs) =
     (if x = c then Some 0 else map_option Suc (index_of c xs))"

text \<open>The value of a digit in a base up to sixteen, in either case of the letters.\<close>

definition digit_val :: "nat \<Rightarrow> char \<Rightarrow> nat option" where
  "digit_val base c =
     (case (case index_of c ''0123456789abcdef'' of
              Some d \<Rightarrow> Some d
            | None \<Rightarrow> index_of c ''0123456789ABCDEF'') of
        None \<Rightarrow> None
      | Some d \<Rightarrow> if d < base then Some d else None)"

definition is_digit :: "nat \<Rightarrow> char \<Rightarrow> bool" where
  "is_digit base c = (digit_val base c \<noteq> None)"

fun digits_val :: "nat \<Rightarrow> nat \<Rightarrow> string \<Rightarrow> nat" where
  "digits_val base acc [] = acc"
| "digits_val base acc (c # cs) =
     digits_val base (acc * base + (case digit_val base c of Some d \<Rightarrow> d | None \<Rightarrow> 0)) cs"

text \<open>
  A string is the list of its code units, each below 256. The white space that the
  conversions strip, among those: tab, line feed, vertical tab, form feed, carriage
  return, space and the no-break space.
\<close>

definition is_space :: "char \<Rightarrow> bool" where
  "is_space c = (c \<in> set [CHR 0x09, CHR 0x0A, CHR 0x0B, CHR 0x0C, CHR 0x0D, CHR 0x20, CHR 0xA0])"

definition trim_start :: "string \<Rightarrow> string" where
  "trim_start s = dropWhile is_space s"

definition trim :: "string \<Rightarrow> string" where
  "trim s = rev (dropWhile is_space (rev (dropWhile is_space s)))"

fun starts_with :: "string \<Rightarrow> string \<Rightarrow> bool" where
  "starts_with [] s = True"
| "starts_with (p # ps) [] = False"
| "starts_with (p # ps) (x # xs) = (p = x \<and> starts_with ps xs)"

text \<open>
  An optional exponent part at the head of a string: \<open>e\<close> or \<open>E\<close>, an optional sign and
  at least one digit. Without the digits there is no exponent and nothing is consumed.
\<close>

definition scan_exponent :: "string \<Rightarrow> int \<times> string" where
  "scan_exponent s =
     (case s of
        [] \<Rightarrow> (0, s)
      | c # r \<Rightarrow>
          if c = CHR ''e'' \<or> c = CHR ''E'' then
            (let (negative, r1) =
                   (case r of
                      [] \<Rightarrow> (False, r)
                    | d # r' \<Rightarrow>
                        if d = CHR ''-'' then (True, r')
                        else if d = CHR ''+'' then (False, r')
                        else (False, r));
                 ds = takeWhile (is_digit 10) r1
             in if ds = [] then (0, s)
                else ((if negative then - int (digits_val 10 0 ds) else int (digits_val 10 0 ds)),
                      dropWhile (is_digit 10) r1))
          else (0, s))"

definition scale10 :: "rat \<Rightarrow> int \<Rightarrow> rat" where
  "scale10 m e = (if 0 \<le> e then m * 10 ^ nat e else m / 10 ^ nat (- e))"

text \<open>
  The longest prefix that is a StrUnsignedDecimalLiteral of ECMAScript, with its value
  and the rest of the string: \<open>Infinity\<close>, or digits with an optional fraction, or a dot
  with digits, each with an optional exponent.
\<close>

definition scan_unsigned :: "string \<Rightarrow> (jsnum \<times> string) option" where
  "scan_unsigned s =
     (if starts_with ''Infinity'' s then Some (PosInf, drop 8 s)
      else
        (let ip = takeWhile (is_digit 10) s;
             r1 = dropWhile (is_digit 10) s;
             dot = (case r1 of [] \<Rightarrow> False | c # _ \<Rightarrow> c = CHR ''.'');
             fp = (if dot then takeWhile (is_digit 10) (tl r1) else []);
             r2 = (if dot then dropWhile (is_digit 10) (tl r1) else r1)
         in if ip = [] \<and> fp = [] then None
            else
              (let (e, r3) = scan_exponent r2;
                   m = of_nat (digits_val 10 0 ip)
                       + of_nat (digits_val 10 0 fp) / 10 ^ length fp
               in Some (Fin (scale10 m e), r3))))"

text \<open>The same with an optional sign in front (StrDecimalLiteral).\<close>

definition scan_decimal :: "string \<Rightarrow> (jsnum \<times> string) option" where
  "scan_decimal s =
     (case s of
        [] \<Rightarrow> None
      | c # r \<Rightarrow>
          if c = CHR ''-'' then map_option (\<lambda>(v, t). (js_neg v, t)) (scan_unsigned r)
          else if c = CHR ''+'' then scan_unsigned r
          else scan_unsigned s)"

text \<open>
  The global \<open>parseFloat\<close>: leading white space is dropped, the longest prefix that is a
  decimal literal gives the value, and \<open>NaN\<close> is the answer when there is none.
\<close>

definition parseFloat :: "string \<Rightarrow> jsnum" where
  "parseFloat s =
     (case scan_decimal (trim_start s) of
        None \<Rightarrow> NaN
      | Some (v, _) \<Rightarrow> v)"

text \<open>A literal in base 16, 8 or 2: the prefix, then at least one digit and nothing else.\<close>

definition non_decimal :: "string \<Rightarrow> jsnum option" where
  "non_decimal s =
     (case s of
        z # b # ds \<Rightarrow>
          (let base = (if b = CHR ''x'' \<or> b = CHR ''X'' then 16
                       else if b = CHR ''o'' \<or> b = CHR ''O'' then 8
                       else if b = CHR ''b'' \<or> b = CHR ''B'' then 2
                       else (0::nat))
           in if z = CHR ''0'' \<and> base \<noteq> 0 \<and> ds \<noteq> [] \<and> list_all (is_digit base) ds
              then Some (Fin (of_nat (digits_val base 0 ds)))
              else None)
      | _ \<Rightarrow> None)"

text \<open>
  \<open>Number\<close> applied to a string (StringToNumber): white space is stripped at both ends,
  the empty string is zero, and the whole of what is left must be a numeric literal.
\<close>

definition Number :: "string \<Rightarrow> jsnum" where
  "Number s =
     (let t = trim s
      in if t = [] then Fin 0
         else (case non_decimal t of
                 Some v \<Rightarrow> v
               | None \<Rightarrow>
                   (case scan_decimal t of
                      Some (v, []) \<Rightarrow> v
                    | _ \<Rightarrow> NaN)))"

section \<open>Values, errors and the timestamp conversion\<close>

text \<open>
  What \<open>JSON.parse\<close> can return. An object is the list of its own properties; a key that
  occurs twice holds its last value.
\<close>

datatype json =
    JNull
  | JBool bool
  | JNum jsnum
  | JStr string
  | JArr "json list"
  | JObj "(string \<times> json) list"

text \<open>
  The exceptions of the run time that the handler can meet: reading a property of
  \<open>null\<close> or \<open>undefined\<close>, and calling what is not a function.
\<close>

datatype exn = TypeError_no_properties | TypeError_not_a_function

text \<open>
  Reading the property \<open>k\<close> of a parsed value, for the two keys the handler reads,
  \<open>start\<close> and \<open>end\<close>, which no prototype defines: \<open>null\<close> throws, an object
  answers with its own property, every other value answers \<open>undefined\<close> (\<open>None\<close>).
\<close>

fun get_prop :: "json \<Rightarrow> string \<Rightarrow> exn + json option" where
  "get_prop JNull k = Inl TypeError_no_properties"
| "get_prop (JObj kvs) k = Inr (map_of (rev kvs) k)"
| "get_prop _ k = Inr None"

text \<open>
  \<open>timestampToSeconds\<close>. A number is returned as it is. Of any other value the method
  \<open>split\<close> is called: only a string has it, so \<open>undefined\<close> and \<open>null\<close> throw on the
  property read and a boolean, an array or an object on the call.
\<close>

fun timestampToSeconds :: "json option \<Rightarrow> exn + jsnum" where
  "timestampToSeconds (Some (JNum n)) = Inr n"
| "timestampToSeconds (Some (JStr s)) =
     (let parts = map Number (split CHR '':'' s)
      in if length parts = 3 then
           Inr (js_add (js_add (js_mul (parts ! 0) (Fin 3600)) (js_mul (parts ! 1) (Fin 60)))
                       (parts ! 2))
         else if length parts = 2 then
           Inr (js_add (js_mul (parts ! 0) (Fin 60)) (parts ! 1))
         else
           Inr (if truthy (parseFloat s) then parseFloat s else Fin 0))"
| "timestampToSeconds None = Inl TypeError_no_properties"
| "timestampToSeconds (Some JNull) = Inl TypeError_no_properties"
| "timestampToSeconds (Some _) = Inl TypeError_not_a_function"

section \<open>The platform and the world\<close>

text \<open>
  Everything the handler calls and does not define, as given functions: the JSON parser
  (\<open>None\<close> is its SyntaxError), the generator of identifiers (its \<open>k\<close>-th answer), the
  transcoding engine (for its \<open>k\<close>-th run on an input path, an output path, a start and a
  duration: \<open>None\<close> when it ends, the message of its error otherwise), a refusal of the
  file system to remove a file (the message, for the \<open>k\<close>-th removal), the text of a
  non-string value in a template, the message of an exception, the outcome of
  \<open>toFixed(2)\<close> on the elapsed seconds, the located engine binary and the directory of
  the cuts.
\<close>

record platform =
  JSON_parse :: "string \<Rightarrow> json option"
  uuidv4 :: "nat \<Rightarrow> string"
  ffmpeg_run :: "nat \<Rightarrow> string \<Rightarrow> string \<Rightarrow> jsnum \<Rightarrow> jsnum \<Rightarrow> string option"
  unlink_refused :: "nat \<Rightarrow> string \<Rightarrow> string option"
  String_of :: "json option \<Rightarrow> string"
  message_of :: "exn \<Rightarrow> string"
  elapsed :: string
  ffmpegPath :: string
  CUTS_DIR :: string

text \<open>
  The lines the server writes on the console. The engine's own \<open>start\<close> and
  \<open>progress\<close> lines are left out: the engine decides whether and how often they come.
\<close>

datatype logline =
    Log_Processing nat string
  | Log_FFmpeg_Completed string
  | Log_FFmpeg_Error string
  | Log_Cut_completed nat nat
  | Log_Cut_failed nat string
  | Warn_cleanup_failed string
  | Log_Completed string nat nat
  | Log_Error exn

text \<open>
  What the handler does to the outside, in the order it does it: a run of the engine
  (input path, output path, start, duration), a call of \<open>fs.unlinkSync\<close>, a line on
  the console.
\<close>

datatype event =
    Engine string string jsnum jsnum
  | Unlink string
  | Console logline



text \<open>
  The state outside the handler: the files in the uploads directory, how many identifiers
  were drawn, and the events so far.
\<close>

record world =
  uploads :: "string set"
  uuid_count :: nat
  events :: "event list"

definition log :: "logline \<Rightarrow> world \<Rightarrow> world" where
  "log l w = w\<lparr>events := events w @ [Console l]\<rparr>"

text \<open>
  \<open>fs.unlinkSync\<close>: the call is an event; it throws when the file system refuses or the
  file is not there, and removes the file otherwise.
\<close>

definition unlinkSync :: "platform \<Rightarrow> string \<Rightarrow> world \<Rightarrow> (string + unit) \<times> world" where
  "unlinkSync P p w =
     (let w1 = w\<lparr>events := events w @ [Unlink p]\<rparr>
      in case unlink_refused P (length (events w)) p of
           Some msg \<Rightarrow> (Inl msg, w1)
         | None \<Rightarrow>
             if p \<in> uploads w then (Inr (), w1\<lparr>uploads := uploads w - {p}\<rparr>)
             else (Inl (''ENOENT: no such file or directory, unlink '' @ p), w1))"

text \<open>
  \<open>cutVideoSegment\<close>: one run of the engine from \<open>startSeconds\<close> for
  \<open>endSeconds - startSeconds\<close>; the promise resolves with the output path or rejects
  with the engine's error, and the caller waits for it.
\<close>

definition cutVideoSegment ::
  "platform \<Rightarrow> string \<Rightarrow> string \<Rightarrow> jsnum \<Rightarrow> jsnum \<Rightarrow> world \<Rightarrow> (string + string) \<times> world" where
  "cutVideoSegment P inputPath outputPath startSeconds endSeconds w =
     (let duration = js_sub endSeconds startSeconds;
          w1 = w\<lparr>events := events w @ [Engine inputPath outputPath startSeconds duration]\<rparr>
      in case ffmpeg_run P (length (events w)) inputPath outputPath startSeconds duration of
           None \<Rightarrow> (Inr outputPath, log (Log_FFmpeg_Completed outputPath) w1)
         | Some msg \<Rightarrow> (Inl msg, log (Log_FFmpeg_Error msg) w1))"

section \<open>The requests and the responses\<close>

record upload =
  path :: string
  originalname :: string

text \<open>
  A request after the upload middleware: the stored file, when there is one, and the text
  field \<open>cuts\<close> of the form, when it was sent.
\<close>

record request =
  req_file :: "upload option"
  body_cuts :: "string option"

text \<open>A response: the status and the properties of the object given to \<open>res.json\<close>.\<close>

record response =
  status :: nat
  body :: "(string \<times> json) list"

text \<open>\<open>GET /health\<close>.\<close>

definition health :: "platform \<Rightarrow> response" where
  "health P = \<lparr>status = 200, body = [(''status'', JStr ''ok''), (''ffmpeg'', JStr (ffmpegPath P))]\<rparr>"

definition bad_request :: "string \<Rightarrow> response" where
  "bad_request msg = \<lparr>status = 400, body = [(''success'', JBool False), (''error'', JStr msg)]\<rparr>"

definition server_error :: "string \<Rightarrow> response" where
  "server_error msg = \<lparr>status = 500, body = [(''success'', JBool False), (''error'', JStr msg)]\<rparr>"

definition error_json :: "nat \<times> string \<Rightarrow> json" where
  "error_json e = JObj [(''index'', JNum (Fin (of_nat (fst e)))), (''error'', JStr (snd e))]"

text \<open>
  The answer to a batch that ran: \<open>errors\<close> is \<open>undefined\<close> when there is none, and a
  property that is \<open>undefined\<close> is not in the JSON sent.
\<close>

definition batch_response :: "platform \<Rightarrow> string list \<Rightarrow> (nat \<times> string) list \<Rightarrow> response" where
  "batch_response P results errors =
     \<lparr>status = 200,
      body = [(''success'', JBool (length results > 0)),
              (''cuts'', JArr (map JStr results))]
             @ (if length errors > 0 then [(''errors'', JArr (map error_json errors))] else [])
             @ [(''processingTime'', JStr (elapsed P @ ''s''))]\<rparr>"

section \<open>The handler of \<open>POST /cut-video\<close>\<close>

text \<open>The text of a value inside a template literal.\<close>

definition template :: "platform \<Rightarrow> json option \<Rightarrow> string" where
  "template P v = (case v of Some (JStr s) \<Rightarrow> s | _ \<Rightarrow> String_of P v)"

definition path_join :: "string \<Rightarrow> string \<Rightarrow> string" where
  "path_join dir name = dir @ ''/'' @ name"

text \<open>The two arrays of the loop and the world they were built in.\<close>

record batch =
  results :: "string list"
  errors :: "(nat \<times> string) list"
  now :: world

text \<open>
  One turn of the loop, for the cut \<open>c\<close> at index \<open>i\<close> of \<open>n\<close>: an exception leaves with the
  world as it is at the throw.
\<close>

definition process_cut ::
  "platform \<Rightarrow> string \<Rightarrow> nat \<Rightarrow> nat \<Rightarrow> json \<Rightarrow> batch \<Rightarrow> (exn \<times> world) + batch" where
  "process_cut P inputPath n i c b =
     (case get_prop c ''start'' of
        Inl e \<Rightarrow> Inl (e, now b)
      | Inr cut_start \<Rightarrow>
     (case timestampToSeconds cut_start of
        Inl e \<Rightarrow> Inl (e, now b)
      | Inr startSeconds \<Rightarrow>
     (case get_prop c ''end'' of
        Inl e \<Rightarrow> Inl (e, now b)
      | Inr cut_end \<Rightarrow>
     (case timestampToSeconds cut_end of
        Inl e \<Rightarrow> Inl (e, now b)
      | Inr endSeconds \<Rightarrow>
          if js_le endSeconds startSeconds then
            Inr (b\<lparr>errors := errors b @
                   [(i, ''Invalid time range: '' @ template P cut_start @ '' to '' @ template P cut_end)]\<rparr>)
          else
            (let outputFilename = uuidv4 P (uuid_count (now b)) @ ''.mp4'';
                 w1 = (now b)\<lparr>uuid_count := Suc (uuid_count (now b))\<rparr>;
                 outputPath = path_join (CUTS_DIR P) outputFilename
             in case cutVideoSegment P inputPath outputPath startSeconds endSeconds w1 of
                  (Inr _, w2) \<Rightarrow>
                    Inr (b\<lparr>results := results b @ [''cuts/'' @ outputFilename],
                           now := log (Log_Cut_completed (i + 1) n) w2\<rparr>)
                | (Inl msg, w2) \<Rightarrow>
                    Inr (b\<lparr>errors := errors b @ [(i, msg)],
                           now := log (Log_Cut_failed (i + 1) msg) w2\<rparr>))))))"

text \<open>The loop over the cuts from index \<open>i\<close> on.\<close>

fun cut_loop ::
  "platform \<Rightarrow> string \<Rightarrow> nat \<Rightarrow> nat \<Rightarrow> json list \<Rightarrow> batch \<Rightarrow> (exn \<times> world) + batch" where
  "cut_loop P inputPath n i [] b = Inr b"
| "cut_loop P inputPath n i (c # rest) b =
     (case process_cut P inputPath n i c b of
        Inl x \<Rightarrow> Inl x
      | Inr b' \<Rightarrow> cut_loop P inputPath n (Suc i) rest b')"

text \<open>The text handed to \<open>JSON.parse\<close>: \<open>req.body.cuts || '[]'\<close>.\<close>

definition cuts_text :: "request \<Rightarrow> string" where
  "cuts_text req = (case body_cuts req of None \<Rightarrow> ''[]'' | Some s \<Rightarrow> if s = [] then ''[]'' else s)"

text \<open>
  The body of the handler's \<open>try\<close>: the three rejections, then the loop, the removal of
  the upload with its own \<open>try\<close>, and the answer.
\<close>

definition cut_video_try :: "platform \<Rightarrow> request \<Rightarrow> world \<Rightarrow> (exn + response) \<times> world" where
  \<open>cut_video_try P req w =
     (case req_file req of
        None \<Rightarrow> (Inr (bad_request ''No video file provided. Use field name "video".''), w)
      | Some f \<Rightarrow>
     (case JSON_parse P (cuts_text req) of
        None \<Rightarrow> (Inr (bad_request ''Invalid JSON in "cuts" field.''), w)
      | Some parsed \<Rightarrow>
     (case parsed of
        JArr cuts \<Rightarrow>
          if length cuts = 0 then
            (Inr (bad_request ''No cuts provided. Send an array of { start, end } objects.''), w)
          else
            (let w0 = log (Log_Processing (length cuts) (originalname f)) w;
                 inputPath = path f
             in case cut_loop P inputPath (length cuts) 0 cuts
                       \<lparr>results = [], errors = [], now = w0\<rparr> of
                  Inl (e, w1) \<Rightarrow> (Inl e, w1)
                | Inr b \<Rightarrow>
                    (let w2 = (case unlinkSync P inputPath (now b) of
                                 (Inr _, w') \<Rightarrow> w'
                               | (Inl msg, w') \<Rightarrow> log (Warn_cleanup_failed msg) w');
                         w3 = log (Log_Completed (elapsed P) (length (results b)) (length (errors b))) w2
                     in (Inr (batch_response P (results b) (errors b)), w3)))
      | _ \<Rightarrow> (Inr (bad_request ''No cuts provided. Send an array of { start, end } objects.''), w))))\<close>

text \<open>
  The handler: what the \<open>try\<close> answers, or in the \<open>catch\<close> the removal of the upload,
  whose own failure is dropped, and a 500.
\<close>

definition cut_video :: "platform \<Rightarrow> request \<Rightarrow> world \<Rightarrow> response \<times> world" where
  "cut_video P req w =
     (case cut_video_try P req w of
        (Inr r, w') \<Rightarrow> (r, w')
      | (Inl e, w') \<Rightarrow>
          (let w1 = log (Log_Error e) w';
               w2 = (case req_file req of
                       None \<Rightarrow> w1
                     | Some f \<Rightarrow>
                         if path f \<noteq> [] then snd (unlinkSync P (path f) w1) else w1)
           in (server_error (if message_of P e \<noteq> [] then message_of P e
                             else ''Internal server error''),
               w2)))"

section \<open>Notions for the statements\<close>

text \<open>
  The seconds of one boundary of a cut, as the loop computes them:
  \<open>timestampToSeconds(cut.start)\<close> and \<open>timestampToSeconds(cut.end)\<close>.
\<close>

definition seconds_of :: "json \<Rightarrow> string \<Rightarrow> exn + jsnum" where
  "seconds_of c k = (case get_prop c k of Inl e \<Rightarrow> Inl e | Inr v \<Rightarrow> timestampToSeconds v)"



text \<open>A cut whose range passes the check of the loop, so that the engine is run for it.\<close>

definition in_range :: "json \<Rightarrow> bool" where
  "in_range c =
     (case seconds_of c ''start'' of
        Inl _ \<Rightarrow> False
      | Inr s \<Rightarrow> (case seconds_of c ''end'' of
                    Inl _ \<Rightarrow> False
                  | Inr e \<Rightarrow> \<not> js_le e s))"

text \<open>The message of the failure that the range check records for a cut.\<close>

definition range_message :: "platform \<Rightarrow> json \<Rightarrow> string" where
  "range_message P c =
     (case (get_prop c ''start'', get_prop c ''end'') of
        (Inr a, Inr b) \<Rightarrow> ''Invalid time range: '' @ template P a @ '' to '' @ template P b
      | _ \<Rightarrow> [])"

text \<open>
  The outcome of one cut as the specification has it: the path of the clip, or the index
  of the cut with a message. The loop keeps the outcomes in two arrays; \<open>successes\<close> and
  \<open>failures\<close> are what each array holds of a sequence of outcomes.
\<close>

datatype outcome = Success string | Failure nat string




text \<open>An outcome that can stand at position \<open>i\<close>: a failure carries that index.\<close>

fun at_position :: "nat \<Rightarrow> outcome \<Rightarrow> bool" where
  "at_position i (Success _) = True"
| "at_position i (Failure k _) = (k = i)"

text \<open>
  A sequence of outcomes for the cuts from index \<open>i\<close> on: one outcome for each cut, in
  order, each failure with the index of its cut, and for a cut whose range does not pass
  the check the failure with the message of the check.
\<close>

fun outcomes_for :: "platform \<Rightarrow> nat \<Rightarrow> json list \<Rightarrow> outcome list \<Rightarrow> bool" where
  "outcomes_for P i [] [] = True"
| "outcomes_for P i (c # cs) (x # os) =
     (at_position i x
      \<and> (\<not> in_range c \<longrightarrow> x = Failure i (range_message P c))
      \<and> outcomes_for P (Suc i) cs os)"
| "outcomes_for P i _ _ = False"

fun engine_runs :: "event list \<Rightarrow> (string \<times> jsnum \<times> jsnum) list" where
  "engine_runs [] = []"
| "engine_runs (Engine inp out s d # evs) = (inp, s, d) # engine_runs evs"
| "engine_runs (_ # evs) = engine_runs evs"






section \<open>Concrete requests\<close>

text \<open>
  A platform to run the handler on: its parser knows the texts of the requests below, its
  engine fails or not as a flag says, and its file system refuses a removal or not as a
  second flag says.
\<close>

definition two_cuts :: "json list" where
  "two_cuts =
     [JObj [(''start'', JStr ''00:00:05''), (''end'', JStr ''00:00:12'')],
      JObj [(''start'', JStr ''00:00:20''), (''end'', JStr ''00:00:10'')]]"

definition cut_without_end :: "json list" where
  "cut_without_end =
     [JObj [(''start'', JStr ''00:00:05'')],
      JObj [(''start'', JNum (Fin 0)), (''end'', JNum (Fin 1))]]"

definition cuts_in_range :: "json list" where
  "cuts_in_range =
     [JObj [(''start'', JNum (Fin 0)), (''end'', JNum (Fin 1))],
      JObj [(''start'', JStr ''00:00:05''), (''end'', JStr ''00:00:12'')]]"

definition demo_parse :: "string \<Rightarrow> json option" where
  \<open>demo_parse s =
     (if s = ''[]'' then Some (JArr [])
      else if s = ''{}'' then Some (JObj [])
      else if s = ''[{"start":"00:00:05","end":"00:00:12"},{"start":"00:00:20","end":"00:00:10"}]''
        then Some (JArr two_cuts)
      else if s = ''[{"start":"00:00:05"},{"start":0,"end":1}]''
        then Some (JArr cut_without_end)
      else if s = ''[{"start":0,"end":1},{"start":"00:00:05","end":"00:00:12"}]''
        then Some (JArr cuts_in_range)
      else None)\<close>

definition demo_platform :: "bool \<Rightarrow> bool \<Rightarrow> platform" where
  "demo_platform engine_fails removal_refused =
     \<lparr>JSON_parse = demo_parse,
      uuidv4 = (\<lambda>k. if k = 0 then ''6f1c'' else ''a2b7''),
      ffmpeg_run = (\<lambda>k inp out s d. if engine_fails then Some ''ffmpeg exited with code 1'' else None),
      unlink_refused = (\<lambda>k p. if removal_refused then Some ''EPERM: operation not permitted'' else None),
      String_of = (\<lambda>v. ''?''),
      message_of = (\<lambda>e. ''Cannot read properties of undefined''),
      elapsed = ''0.42'',
      ffmpegPath = ''/app/node_modules/ffmpeg-static/ffmpeg'',
      CUTS_DIR = ''/app/cuts''\<rparr>"

definition demo_upload :: upload where
  "demo_upload = \<lparr>path = ''/app/uploads/9d3e.mp4'', originalname = ''talk.mp4''\<rparr>"

definition demo_world :: world where
  "demo_world = \<lparr>uploads = {''/app/uploads/9d3e.mp4''}, uuid_count = 0, events = []\<rparr>"

definition demo_request :: "string \<Rightarrow> request" where
  "demo_request cuts = \<lparr>req_file = Some demo_upload, body_cuts = Some cuts\<rparr>"




section \<open>The timestamp conversion and the loop\<close>














lemma outcomes_for_nth:
  "outcomes_for P i cs os \<Longrightarrow> j < length cs \<Longrightarrow>
   at_position (i + j) (os ! j)
   \<and> (\<not> in_range (cs ! j) \<longrightarrow> os ! j = Failure (i + j) (range_message P (cs ! j)))"
proof (induction P i cs os arbitrary: j rule: outcomes_for.induct)
  case (2 P i c cs x os)
  show ?case
  proof (cases j)
    case 0
    with "2.prems" show ?thesis by simp
  next
    case (Suc k)
    with "2.prems" "2.IH" [of k] show ?thesis by simp
  qed
qed simp_all










section \<open>The handler as a whole\<close>

text \<open>
  The three kinds of answer: the rejection before the loop, the 500 of an aborted batch
  and the response of a batch that ran, each with the events around it.
\<close>

lemma cut_video_rejected:
  assumes "req_file req = None
           \<or> JSON_parse P (cuts_text req) = None
           \<or> (\<exists>v. JSON_parse P (cuts_text req) = Some v \<and> (\<forall>cs. v \<noteq> JArr cs))
           \<or> JSON_parse P (cuts_text req) = Some (JArr [])"
  shows "status (fst (cut_video P req w)) = 400 \<and> snd (cut_video P req w) = w"
  using assms unfolding cut_video_def cut_video_try_def
  by (auto simp: bad_request_def split: option.splits json.splits)

















section \<open>The claims\<close>
















text \<open>
  C7. Without a stored file, or with a text for \<open>JSON.parse\<close> that does not parse, or
  parses to something that is not an array, or to the empty array, the answer is a 400 and
  the world is left as it was: no run of the engine, no event at all.
\<close>

theorem rejected_requests:
  assumes "req_file req = None
           \<or> JSON_parse P (cuts_text req) = None
           \<or> (\<exists>v. JSON_parse P (cuts_text req) = Some v \<and> (\<forall>cs. v \<noteq> JArr cs))
           \<or> JSON_parse P (cuts_text req) = Some (JArr [])"
  shows "status (fst (cut_video P req w)) = 400
         \<and> engine_runs (events (snd (cut_video P req w))) = engine_runs (events w)
         \<and> snd (cut_video P req w) = w"
  using cut_video_rejected [OF assms] by simp

text \<open>
  C7 on a request whose \<open>cuts\<close> field is a lone opening brace.
\<close>

theorem rejected_requests_witness:
  "JSON_parse (demo_platform False False) (cuts_text (demo_request ''{'')) = None
   \<and> status (fst (cut_video (demo_platform False False) (demo_request ''{'') demo_world)) = 400
   \<and> engine_runs (events (snd (cut_video (demo_platform False False) (demo_request ''{'') demo_world))) =
       engine_runs (events demo_world)
   \<and> snd (cut_video (demo_platform False False) (demo_request ''{'') demo_world) = demo_world"
proof -
  have h: "JSON_parse (demo_platform False False) (cuts_text (demo_request ''{'')) = None"
    by code_simp
  then have "req_file (demo_request ''{'') = None
           \<or> JSON_parse (demo_platform False False) (cuts_text (demo_request ''{'')) = None
           \<or> (\<exists>v. JSON_parse (demo_platform False False) (cuts_text (demo_request ''{'')) = Some v
                  \<and> (\<forall>cs. v \<noteq> JArr cs))
           \<or> JSON_parse (demo_platform False False) (cuts_text (demo_request ''{'')) = Some (JArr [])"
    by blast
  from rejected_requests [OF this, of demo_world] h show ?thesis by blast
qed

text \<open>
  C8, as the code has it. The health response is a 200 whose body has exactly two fields:
  \<open>status\<close>, which is \<open>ok\<close>, and \<open>ffmpeg\<close>, which is the path of the engine binary.
\<close>

theorem health_response:
  "status (health P) = 200
   \<and> map_of (body (health P)) ''status'' = Some (JStr ''ok'')
   \<and> map_of (body (health P)) ''ffmpeg'' = Some (JStr (ffmpegPath P))
   \<and> map fst (body (health P)) = [''status'', ''ffmpeg'']"
  by (simp add: health_def)

text \<open>
  C8 as stated fails: the body has no field named \<open>ffmpegPath\<close>.
\<close>

theorem health_no_ffmpegPath_field:
  "map_of (body (health (demo_platform False False))) ''ffmpegPath'' = None"
  by (simp add: health_def)



text \<open>
  C10. A stored file, and a text for \<open>JSON.parse\<close> that does not parse, or parses to
  something that is not an array, or to the empty array: the answer is a 400, no event is
  added, so \<open>fs.unlinkSync\<close> is not called, and the uploads directory is as it was: an
  upload that was there is still there.
\<close>

theorem rejected_upload_kept:
  assumes "req_file req = Some f"
    and "JSON_parse P (cuts_text req) = None
         \<or> (\<exists>v. JSON_parse P (cuts_text req) = Some v \<and> (\<forall>cs. v \<noteq> JArr cs))
         \<or> JSON_parse P (cuts_text req) = Some (JArr [])"
  shows "status (fst (cut_video P req w)) = 400
         \<and> events (snd (cut_video P req w)) = events w
         \<and> uploads (snd (cut_video P req w)) = uploads w
         \<and> (path f \<in> uploads w \<longrightarrow> path f \<in> uploads (snd (cut_video P req w)))"
proof -
  from assms(2) have "req_file req = None
           \<or> JSON_parse P (cuts_text req) = None
           \<or> (\<exists>v. JSON_parse P (cuts_text req) = Some v \<and> (\<forall>cs. v \<noteq> JArr cs))
           \<or> JSON_parse P (cuts_text req) = Some (JArr [])"
    by blast
  from cut_video_rejected [OF this, of w] show ?thesis by simp
qed

text \<open>
  C10 on a request whose \<open>cuts\<close> field is the empty array.
\<close>

theorem rejected_upload_kept_witness:
  "req_file (demo_request ''[]'') = Some demo_upload
   \<and> JSON_parse (demo_platform False False) (cuts_text (demo_request ''[]'')) = Some (JArr [])
   \<and> path demo_upload \<in> uploads demo_world
   \<and> status (fst (cut_video (demo_platform False False) (demo_request ''[]'') demo_world)) = 400
   \<and> events (snd (cut_video (demo_platform False False) (demo_request ''[]'') demo_world)) =
       events demo_world
   \<and> uploads (snd (cut_video (demo_platform False False) (demo_request ''[]'') demo_world)) =
       uploads demo_world
   \<and> path demo_upload \<in> uploads (snd (cut_video (demo_platform False False) (demo_request ''[]'') demo_world))"
proof -
  have h1: "req_file (demo_request ''[]'') = Some demo_upload"
    by (simp add: demo_request_def)
  have h2: "JSON_parse (demo_platform False False) (cuts_text (demo_request ''[]'')) = Some (JArr [])"
    by code_simp
  then have h3: "JSON_parse (demo_platform False False) (cuts_text (demo_request ''[]'')) = None
         \<or> (\<exists>v. JSON_parse (demo_platform False False) (cuts_text (demo_request ''[]'')) = Some v
                \<and> (\<forall>cs. v \<noteq> JArr cs))
         \<or> JSON_parse (demo_platform False False) (cuts_text (demo_request ''[]'')) = Some (JArr [])"
    by blast
  have h4: "path demo_upload \<in> uploads demo_world"
    by (simp add: demo_upload_def demo_world_def)
  from rejected_upload_kept [OF h1 h3, of demo_world] h1 h2 h4 show ?thesis by blast
qed

end
